theory Spec2Isabelle
  imports Complex_Main
begin

section \<open>The scroll provider (MotionifyProvider)\<close>

text \<open>
  JavaScript numbers are modelled as reals: the model covers the finite, non-NaN values a
  scroll view reports. The provider keeps React state (\<open>direction\<close>, \<open>isScrolling\<close>,
  \<open>threshold\<close>, \<open>supportIdle\<close>), two Reanimated shared values (\<open>scrollY\<close>,
  \<open>directionShared\<close>) and six refs. All of it is one record, passed through every handler.

  The handler \<open>onScroll\<close> is installed as the \<open>onScroll\<close> prop of a scroll view and reads
  and writes the refs, so it runs on the JavaScript thread; there \<open>runOnJS(f)(x)\<close> defers
  the call \<open>f(x)\<close> to the end of the running task. The deferred calls are kept in
  \<open>jsQueue\<close>, in the order queued, and run before any timer or other handler.

  The host's timer table is \<open>pendingTimers\<close> (the ids of the armed timers) with
  \<open>nextTimerId\<close> the id that the next \<open>setTimeout\<close> returns.
\<close>

datatype Direction = Up | Down | Idle

record ScrollEvent =
  contentOffsetY :: real
  contentSizeHeight :: real
  layoutMeasurementHeight :: real

datatype JSCall = UpdateIsScrolling bool | ResetScrollTimeout | UpdateDirection Direction

record Provider =
  scrollY :: real
  directionShared :: Direction
  direction :: Direction
  isScrolling :: bool
  threshold :: real
  supportIdle :: bool
  previousYRef :: real
  scrollStartYRef :: real
  isUserScrollingRef :: bool
  scrollTimeoutRef :: "nat option"
  thresholdRef :: real
  supportIdleRef :: bool
  pendingTimers :: "nat list"
  nextTimerId :: nat
  jsQueue :: "JSCall list"

definition DEFAULT_THRESHOLD :: real where
  "DEFAULT_THRESHOLD = 8"

definition DEFAULT_SUPPORT_IDLE :: bool where
  "DEFAULT_SUPPORT_IDLE = False"

text \<open>The state a freshly mounted provider has, from its two optional props.\<close>

definition MotionifyProvider :: "real option \<Rightarrow> bool option \<Rightarrow> Provider" where
  "MotionifyProvider thresholdProp supportIdleProp =
     (let initialThreshold = (case thresholdProp of None \<Rightarrow> DEFAULT_THRESHOLD | Some t \<Rightarrow> t);
          initialSupportIdle = (case supportIdleProp of None \<Rightarrow> DEFAULT_SUPPORT_IDLE | Some b \<Rightarrow> b)
      in \<lparr> scrollY = 0, directionShared = Idle, direction = Idle, isScrolling = False,
           threshold = initialThreshold, supportIdle = initialSupportIdle,
           previousYRef = 0, scrollStartYRef = 0, isUserScrollingRef = False,
           scrollTimeoutRef = None, thresholdRef = initialThreshold,
           supportIdleRef = initialSupportIdle,
           pendingTimers = [], nextTimerId = 1, jsQueue = [] \<rparr>)"

text \<open>The two effects that copy the state into the refs after a render.\<close>

definition syncRefs :: "Provider \<Rightarrow> Provider" where
  "syncRefs p = p\<lparr> thresholdRef := threshold p, supportIdleRef := supportIdle p \<rparr>"

definition resetToIdle :: "Provider \<Rightarrow> Provider" where
  "resetToIdle p =
     p\<lparr> isUserScrollingRef := False, directionShared := Idle, direction := Idle,
        isScrolling := False \<rparr>"

definition clearTimeout :: "nat \<Rightarrow> Provider \<Rightarrow> Provider" where
  "clearTimeout t p = p\<lparr> pendingTimers := removeAll t (pendingTimers p) \<rparr>"

definition resetScrollTimeout :: "Provider \<Rightarrow> Provider" where
  "resetScrollTimeout p =
     (let p1 = (case scrollTimeoutRef p of Some t \<Rightarrow> clearTimeout t p | None \<Rightarrow> p);
          t' = nextTimerId p1
      in p1\<lparr> pendingTimers := pendingTimers p1 @ [t'], nextTimerId := Suc t',
              scrollTimeoutRef := Some t' \<rparr>)"

text \<open>The idle timer \<open>t\<close> fires: the callback given to \<open>setTimeout\<close> runs \<open>resetToIdle\<close>.\<close>

definition timerFires :: "nat \<Rightarrow> Provider \<Rightarrow> Provider" where
  "timerFires t p =
     (if t \<in> set (pendingTimers p)
      then resetToIdle (p\<lparr> pendingTimers := removeAll t (pendingTimers p) \<rparr>)
      else p)"

definition runOnJS :: "JSCall \<Rightarrow> Provider \<Rightarrow> Provider" where
  "runOnJS c p = p\<lparr> jsQueue := jsQueue p @ [c] \<rparr>"

fun runJSCall :: "JSCall \<Rightarrow> Provider \<Rightarrow> Provider" where
  "runJSCall (UpdateIsScrolling scrolling) p = p\<lparr> isScrolling := scrolling \<rparr>"
| "runJSCall ResetScrollTimeout p = resetScrollTimeout p"
| "runJSCall (UpdateDirection newDirection) p = p\<lparr> direction := newDirection \<rparr>"

fun drain :: "JSCall list \<Rightarrow> Provider \<Rightarrow> Provider" where
  "drain [] p = p"
| "drain (c # cs) p = drain cs (runJSCall c p)"

definition flushJS :: "Provider \<Rightarrow> Provider" where
  "flushJS p = drain (jsQueue p) (p\<lparr> jsQueue := [] \<rparr>)"

text \<open>
  The body of \<open>onScroll\<close>, statement by statement. Its two pure expressions, the
  reversal test \<open>isDirectionChange\<close> and the choice of \<open>newDirection\<close> (\<open>None\<close> is the
  source's \<open>null\<close>), are definitions of their own.
\<close>

definition isDirectionChange :: "real \<Rightarrow> real \<Rightarrow> bool" where
  "isDirectionChange currentTotalDelta deltaY =
     ((currentTotalDelta > 0 \<and> deltaY < 0) \<or>
      (currentTotalDelta < 0 \<and> deltaY > 0) \<or>
      (currentTotalDelta = 0 \<and> \<bar>deltaY\<bar> > 0))"

definition newDirection :: "real \<Rightarrow> real \<Rightarrow> Direction option" where
  "newDirection totalDelta thresholdCurrent =
     (if totalDelta > 0 then Some Down
      else if totalDelta < - thresholdCurrent then Some Up
      else None)"

definition onScroll_worklet :: "ScrollEvent \<Rightarrow> Provider \<Rightarrow> Provider" where
  "onScroll_worklet event p =
     (let currentY = contentOffsetY event;
          contentHeight = contentSizeHeight event;
          layoutHeight = layoutMeasurementHeight event;
          maxScrollY = max 0 (contentHeight - layoutHeight);
          clampedY = max 0 (min currentY maxScrollY);
          p1 = p\<lparr> scrollY := clampedY \<rparr>;
          deltaY = clampedY - previousYRef p1;
          p2 = (if \<not> isUserScrollingRef p1
                then runOnJS (UpdateIsScrolling True)
                       (p1\<lparr> isUserScrollingRef := True, scrollStartYRef := clampedY \<rparr>)
                else p1);
          currentTotalDelta = clampedY - scrollStartYRef p2;
          p3 = (if isDirectionChange currentTotalDelta deltaY
                then p2\<lparr> scrollStartYRef := clampedY \<rparr> else p2);
          p4 = (if supportIdleRef p3 then runOnJS ResetScrollTimeout p3 else p3);
          totalDelta = clampedY - scrollStartYRef p4;
          p5 = (case newDirection totalDelta (thresholdRef p4) of
                  Some d \<Rightarrow>
                    if d \<noteq> directionShared p4
                    then runOnJS (UpdateDirection d) (p4\<lparr> directionShared := d \<rparr>)
                    else p4
                | None \<Rightarrow> p4)
      in p5\<lparr> previousYRef := clampedY \<rparr>)"

text \<open>One scroll event, handled to the end of its task.\<close>

definition onScroll :: "ScrollEvent \<Rightarrow> Provider \<Rightarrow> Provider" where
  "onScroll event p = flushJS (onScroll_worklet event p)"

definition setThreshold :: "real \<Rightarrow> Provider \<Rightarrow> Provider" where
  "setThreshold newThreshold p =
     (if newThreshold > 0 then p\<lparr> threshold := newThreshold \<rparr> else p)"

definition setSupportIdle :: "bool \<Rightarrow> Provider \<Rightarrow> Provider" where
  "setSupportIdle enabled p = p\<lparr> supportIdle := enabled \<rparr>"

text \<open>
  The hook \<open>useMotionify\<close>: its optional configuration, with the defaults its parameter
  destructuring fills in, and its two effects. \<open>useMotionify_mount\<close> is what the effects do
  when they run, \<open>useMotionify_unmount\<close> what their cleanups do.
\<close>

record MotionifyConfig =
  configThreshold :: "real option"
  configSupportIdle :: "bool option"

definition thresholdOf :: "MotionifyConfig \<Rightarrow> real" where
  "thresholdOf config = (case configThreshold config of None \<Rightarrow> DEFAULT_THRESHOLD | Some t \<Rightarrow> t)"

definition supportIdleOf :: "MotionifyConfig \<Rightarrow> bool" where
  "supportIdleOf config =
     (case configSupportIdle config of None \<Rightarrow> DEFAULT_SUPPORT_IDLE | Some b \<Rightarrow> b)"

definition useMotionify_mount :: "MotionifyConfig \<Rightarrow> Provider \<Rightarrow> Provider" where
  "useMotionify_mount config p =
     (let p1 = (if thresholdOf config \<noteq> DEFAULT_THRESHOLD
                then setThreshold (thresholdOf config) p else p)
      in if supportIdleOf config \<noteq> DEFAULT_SUPPORT_IDLE
         then setSupportIdle (supportIdleOf config) p1 else p1)"

definition useMotionify_unmount :: "MotionifyConfig \<Rightarrow> Provider \<Rightarrow> Provider" where
  "useMotionify_unmount config p =
     (let p1 = (if thresholdOf config \<noteq> DEFAULT_THRESHOLD
                then setThreshold DEFAULT_THRESHOLD p else p)
      in if supportIdleOf config \<noteq> DEFAULT_SUPPORT_IDLE
         then setSupportIdle DEFAULT_SUPPORT_IDLE p1 else p1)"

section \<open>Interpolation specifications\<close>

text \<open>
  \<open>InterpolationConfig\<close> and the helper \<open>createInterpolation\<close>. The output range is a
  list of numbers or of strings; the mode is one of three strings, \<open>clamp\<close> when the
  argument is left out. The helper has no check and no \<open>throw\<close>: its result type carries
  the error branch so that its never failing can be stated.
\<close>

datatype Extrapolate = Extend | Identity | Clamp

datatype OutputRange = Numbers "real list" | Strings "string list"

record InterpolationConfig =
  inputRange :: "real list"
  outputRange :: OutputRange
  extrapolate :: "Extrapolate option"

datatype error = ConfigurationError

definition createInterpolation ::
    "real list \<Rightarrow> OutputRange \<Rightarrow> Extrapolate option \<Rightarrow> error + InterpolationConfig" where
  "createInterpolation inputRangeArg outputRangeArg extrapolateArg =
     Inr \<lparr> inputRange = inputRangeArg, outputRange = outputRangeArg,
           extrapolate = Some (case extrapolateArg of None \<Rightarrow> Clamp | Some m \<Rightarrow> m) \<rparr>"

text \<open>
  The spec's condition on a specification: ranges of the same length, at least two
  breakpoints, input range strictly increasing.
\<close>

fun outputLength :: "OutputRange \<Rightarrow> nat" where
  "outputLength (Numbers xs) = length xs"
| "outputLength (Strings xs) = length xs"

definition specWellFormed :: "real list \<Rightarrow> OutputRange \<Rightarrow> bool" where
  "specWellFormed inp out =
     (length inp = outputLength out \<and> 2 \<le> length inp \<and> sorted_wrt (<) inp)"






section \<open>Derived notions\<close>

text \<open>
  What the body of \<open>onScroll\<close> computes, named: the clamped offset, the anchor before and
  after the reversal test, the direction chosen and the calls deferred.
\<close>

definition clampY :: "ScrollEvent \<Rightarrow> real" where
  "clampY event =
     max 0 (min (contentOffsetY event)
                (max 0 (contentSizeHeight event - layoutMeasurementHeight event)))"

definition gestureStart :: "ScrollEvent \<Rightarrow> Provider \<Rightarrow> real" where
  "gestureStart e p = (if isUserScrollingRef p then scrollStartYRef p else clampY e)"

definition reversal :: "ScrollEvent \<Rightarrow> Provider \<Rightarrow> bool" where
  "reversal e p = isDirectionChange (clampY e - gestureStart e p) (clampY e - previousYRef p)"

definition anchorAfter :: "ScrollEvent \<Rightarrow> Provider \<Rightarrow> real" where
  "anchorAfter e p = (if reversal e p then clampY e else gestureStart e p)"

definition decided :: "ScrollEvent \<Rightarrow> Provider \<Rightarrow> Direction option" where
  "decided e p = newDirection (clampY e - anchorAfter e p) (thresholdRef p)"

definition queued :: "ScrollEvent \<Rightarrow> Provider \<Rightarrow> JSCall list" where
  "queued e p =
     (if isUserScrollingRef p then [] else [UpdateIsScrolling True]) @
     (if supportIdleRef p then [ResetScrollTimeout] else []) @
     (case decided e p of
        Some d \<Rightarrow> if d \<noteq> directionShared p then [UpdateDirection d] else []
      | None \<Rightarrow> [])"

text \<open>The React state that a list of deferred calls leaves behind.\<close>

fun finalDirection :: "Direction \<Rightarrow> JSCall list \<Rightarrow> Direction" where
  "finalDirection d [] = d"
| "finalDirection d (UpdateDirection d' # cs) = finalDirection d' cs"
| "finalDirection d (UpdateIsScrolling b # cs) = finalDirection d cs"
| "finalDirection d (ResetScrollTimeout # cs) = finalDirection d cs"

fun finalScrolling :: "bool \<Rightarrow> JSCall list \<Rightarrow> bool" where
  "finalScrolling s [] = s"
| "finalScrolling s (UpdateIsScrolling b # cs) = finalScrolling b cs"
| "finalScrolling s (UpdateDirection d # cs) = finalScrolling s cs"
| "finalScrolling s (ResetScrollTimeout # cs) = finalScrolling s cs"

text \<open>A run of the handler over a list of samples, and the samples of a long page.\<close>

fun processSamples :: "ScrollEvent list \<Rightarrow> Provider \<Rightarrow> Provider" where
  "processSamples [] p = p"
| "processSamples (e # es) p = processSamples es (onScroll e p)"

definition sampleAt :: "real \<Rightarrow> ScrollEvent" where
  "sampleAt y = \<lparr> contentOffsetY = y, contentSizeHeight = 10000, layoutMeasurementHeight = 800 \<rparr>"

fun directionTrace :: "ScrollEvent list \<Rightarrow> Provider \<Rightarrow> Direction list" where
  "directionTrace [] p = []"
| "directionTrace (e # es) p = directionShared (onScroll e p) # directionTrace es (onScroll e p)"

text \<open>
  The states the provider can be in. A scroll event, a timer, a setter and a render each
  start only when no deferred call is left; the deferred calls then run one by one, so
  the states between two of them are reachable states too.
\<close>

inductive reachable :: "Provider \<Rightarrow> bool" where
  mounted: "reachable (MotionifyProvider thresholdProp supportIdleProp)"
| scrolled: "reachable p \<Longrightarrow> jsQueue p = [] \<Longrightarrow> reachable (onScroll_worklet e p)"
| deferred: "reachable p \<Longrightarrow> jsQueue p = c # cs \<Longrightarrow>
             reachable (runJSCall c (p\<lparr> jsQueue := cs \<rparr>))"
| timeout: "reachable p \<Longrightarrow> jsQueue p = [] \<Longrightarrow> reachable (timerFires t p)"
| threshold_set: "reachable p \<Longrightarrow> jsQueue p = [] \<Longrightarrow> reachable (setThreshold v p)"
| supportIdle_set: "reachable p \<Longrightarrow> jsQueue p = [] \<Longrightarrow> reachable (setSupportIdle b p)"
| rendered: "reachable p \<Longrightarrow> jsQueue p = [] \<Longrightarrow> reachable (syncRefs p)"

text \<open>
  The invariant of the reachable states: now and after each deferred call still queued,
  the provider is scrolling or its direction is \<open>Idle\<close>; once the queue has run,
  \<open>isScrolling\<close> agrees with the ref \<open>isUserScrollingRef\<close> being set and \<open>direction\<close> with
  the shared value.
\<close>

fun idleWhenStill :: "bool \<Rightarrow> Direction \<Rightarrow> JSCall list \<Rightarrow> bool" where
  "idleWhenStill s d [] = (s \<or> d = Idle)"
| "idleWhenStill s d (c # cs) =
     ((s \<or> d = Idle) \<and> idleWhenStill (finalScrolling s [c]) (finalDirection d [c]) cs)"

definition provider_inv :: "Provider \<Rightarrow> bool" where
  "provider_inv p =
     (idleWhenStill (isScrolling p) (direction p) (jsQueue p) \<and>
      (\<not> isUserScrollingRef p \<or> finalScrolling (isScrolling p) (jsQueue p)) \<and>
      finalDirection (direction p) (jsQueue p) = directionShared p)"

text \<open>
  For runs whose clamped offsets never decrease: the largest offset a sample may scroll
  to, a list of samples rising from \<open>c\<close>, the last clamped offset of a run, and the states
  from which such a run cannot report \<open>Up\<close>.
\<close>

definition maxScrollY :: "ScrollEvent \<Rightarrow> real" where
  "maxScrollY e = max 0 (contentSizeHeight e - layoutMeasurementHeight e)"

fun risingFrom :: "real \<Rightarrow> ScrollEvent list \<Rightarrow> bool" where
  "risingFrom c [] = True"
| "risingFrom c (e # es) = (c \<le> clampY e \<and> risingFrom (clampY e) es)"

fun lastClamp :: "real \<Rightarrow> ScrollEvent list \<Rightarrow> real" where
  "lastClamp c [] = c"
| "lastClamp c (e # es) = lastClamp (clampY e) es"

definition steady :: "real \<Rightarrow> Provider \<Rightarrow> bool" where
  "steady c p =
     (0 \<le> thresholdRef p \<and> directionShared p \<noteq> Up \<and>
      (\<not> isUserScrollingRef p \<or> scrollStartYRef p \<le> c))"

section \<open>Facts about the deferred calls\<close>

lemma runJSCall_unchanged [simp]:
  "scrollY (runJSCall c p) = scrollY p"
  "directionShared (runJSCall c p) = directionShared p"
  "threshold (runJSCall c p) = threshold p"
  "supportIdle (runJSCall c p) = supportIdle p"
  "previousYRef (runJSCall c p) = previousYRef p"
  "scrollStartYRef (runJSCall c p) = scrollStartYRef p"
  "isUserScrollingRef (runJSCall c p) = isUserScrollingRef p"
  "thresholdRef (runJSCall c p) = thresholdRef p"
  "supportIdleRef (runJSCall c p) = supportIdleRef p"
  "jsQueue (runJSCall c p) = jsQueue p"
  by (cases c; simp add: resetScrollTimeout_def clearTimeout_def Let_def split: option.splits)+

lemma drain_unchanged [simp]:
  "scrollY (drain cs p) = scrollY p"
  "directionShared (drain cs p) = directionShared p"
  "threshold (drain cs p) = threshold p"
  "supportIdle (drain cs p) = supportIdle p"
  "previousYRef (drain cs p) = previousYRef p"
  "scrollStartYRef (drain cs p) = scrollStartYRef p"
  "isUserScrollingRef (drain cs p) = isUserScrollingRef p"
  "thresholdRef (drain cs p) = thresholdRef p"
  "supportIdleRef (drain cs p) = supportIdleRef p"
  "jsQueue (drain cs p) = jsQueue p"
  by (induction cs arbitrary: p; simp)+

lemma flushJS_unchanged [simp]:
  "scrollY (flushJS p) = scrollY p"
  "directionShared (flushJS p) = directionShared p"
  "threshold (flushJS p) = threshold p"
  "supportIdle (flushJS p) = supportIdle p"
  "previousYRef (flushJS p) = previousYRef p"
  "scrollStartYRef (flushJS p) = scrollStartYRef p"
  "isUserScrollingRef (flushJS p) = isUserScrollingRef p"
  "thresholdRef (flushJS p) = thresholdRef p"
  "supportIdleRef (flushJS p) = supportIdleRef p"
  "jsQueue (flushJS p) = []"
  by (simp_all add: flushJS_def)

lemma onScroll_worklet_eq:
  "onScroll_worklet e p =
     p\<lparr> scrollY := clampY e, isUserScrollingRef := True,
        scrollStartYRef := anchorAfter e p,
        directionShared := (case decided e p of Some d \<Rightarrow> d | None \<Rightarrow> directionShared p),
        previousYRef := clampY e,
        jsQueue := jsQueue p @ queued e p \<rparr>"
proof -
  define c where "c = max 0 (min (contentOffsetY e)
                       (max 0 (contentSizeHeight e - layoutMeasurementHeight e)))"
  define p1 where "p1 = p\<lparr> scrollY := c \<rparr>"
  define deltaY where "deltaY = c - previousYRef p1"
  define p2 where "p2 = (if \<not> isUserScrollingRef p1
                then runOnJS (UpdateIsScrolling True)
                       (p1\<lparr> isUserScrollingRef := True, scrollStartYRef := c \<rparr>)
                else p1)"
  define p3 where "p3 = (if isDirectionChange (c - scrollStartYRef p2) deltaY
                then p2\<lparr> scrollStartYRef := c \<rparr> else p2)"
  define p4 where "p4 = (if supportIdleRef p3 then runOnJS ResetScrollTimeout p3 else p3)"
  define p5 where "p5 = (case newDirection (c - scrollStartYRef p4) (thresholdRef p4) of
                  Some d \<Rightarrow>
                    if d \<noteq> directionShared p4
                    then runOnJS (UpdateDirection d) (p4\<lparr> directionShared := d \<rparr>)
                    else p4
                | None \<Rightarrow> p4)"
  define q1 where "q1 = (if isUserScrollingRef p then [] else [UpdateIsScrolling True])"
  define q2 where "q2 = (if supportIdleRef p then [ResetScrollTimeout] else [])"
  define q3 where "q3 = (case decided e p of
        Some d \<Rightarrow> if d \<noteq> directionShared p then [UpdateDirection d] else []
      | None \<Rightarrow> [])"
  have c: "c = clampY e"
    by (simp only: c_def clampY_def)
  have start: "onScroll_worklet e p = p5\<lparr> previousYRef := c \<rparr>"
    by (simp only: onScroll_worklet_def Let_def c_def p1_def deltaY_def p2_def p3_def
          p4_def p5_def)
  have d: "deltaY = c - previousYRef p"
    by (simp add: deltaY_def p1_def)
  have p2: "p2 = p\<lparr> scrollY := c, isUserScrollingRef := True,
                   scrollStartYRef := gestureStart e p, jsQueue := jsQueue p @ q1 \<rparr>"
    by (cases "isUserScrollingRef p")
       (simp_all add: p2_def p1_def q1_def gestureStart_def runOnJS_def c)
  have p3: "p3 = p\<lparr> scrollY := c, isUserScrollingRef := True,
                   scrollStartYRef := anchorAfter e p, jsQueue := jsQueue p @ q1 \<rparr>"
    by (cases "reversal e p")
       (simp_all add: p3_def p2 d anchorAfter_def reversal_def c)
  have p4: "p4 = p\<lparr> scrollY := c, isUserScrollingRef := True,
                   scrollStartYRef := anchorAfter e p, jsQueue := jsQueue p @ q1 @ q2 \<rparr>"
    by (cases "supportIdleRef p") (simp_all add: p4_def p3 q2_def runOnJS_def)
  have nd: "newDirection (c - scrollStartYRef p4) (thresholdRef p4) = decided e p"
    by (simp add: p4 decided_def c)
  have p5: "p5 = p\<lparr> scrollY := c, isUserScrollingRef := True,
                   scrollStartYRef := anchorAfter e p,
                   directionShared := (case decided e p of Some d \<Rightarrow> d | None \<Rightarrow> directionShared p),
                   jsQueue := jsQueue p @ q1 @ q2 @ q3 \<rparr>"
    unfolding p5_def nd
    by (cases "decided e p") (simp_all add: p4 q3_def runOnJS_def)
  have q: "queued e p = q1 @ q2 @ q3"
    by (simp only: queued_def q1_def q2_def q3_def)
  show ?thesis
    by (simp add: start p5 q c)
qed

lemma worklet_fields [simp]:
  "scrollY (onScroll_worklet e p) = clampY e"
  "previousYRef (onScroll_worklet e p) = clampY e"
  "scrollStartYRef (onScroll_worklet e p) = anchorAfter e p"
  "isUserScrollingRef (onScroll_worklet e p) = True"
  "directionShared (onScroll_worklet e p) =
     (case decided e p of Some d \<Rightarrow> d | None \<Rightarrow> directionShared p)"
  "jsQueue (onScroll_worklet e p) = jsQueue p @ queued e p"
  "threshold (onScroll_worklet e p) = threshold p"
  "supportIdle (onScroll_worklet e p) = supportIdle p"
  "thresholdRef (onScroll_worklet e p) = thresholdRef p"
  "supportIdleRef (onScroll_worklet e p) = supportIdleRef p"
  "direction (onScroll_worklet e p) = direction p"
  "isScrolling (onScroll_worklet e p) = isScrolling p"
  "pendingTimers (onScroll_worklet e p) = pendingTimers p"
  "nextTimerId (onScroll_worklet e p) = nextTimerId p"
  "scrollTimeoutRef (onScroll_worklet e p) = scrollTimeoutRef p"
  by (simp_all add: onScroll_worklet_eq)

lemma runJSCall_direction:
  "direction (runJSCall c p) = finalDirection (direction p) [c]"
  by (cases c) (simp_all add: resetScrollTimeout_def clearTimeout_def Let_def split: option.split)

lemma runJSCall_isScrolling:
  "isScrolling (runJSCall c p) = finalScrolling (isScrolling p) [c]"
  by (cases c) (simp_all add: resetScrollTimeout_def clearTimeout_def Let_def split: option.split)

lemma finalDirection_step:
  "finalDirection d (c # cs) = finalDirection (finalDirection d [c]) cs"
  by (cases c) simp_all

lemma finalScrolling_step:
  "finalScrolling s (c # cs) = finalScrolling (finalScrolling s [c]) cs"
  by (cases c) simp_all

lemma drain_direction: "direction (drain cs p) = finalDirection (direction p) cs"
proof (induction cs arbitrary: p)
  case Nil
  show ?case by simp
next
  case (Cons c cs)
  have "direction (drain (c # cs) p) = finalDirection (direction (runJSCall c p)) cs"
    using Cons.IH by simp
  also have "\<dots> = finalDirection (direction p) (c # cs)"
    by (simp only: runJSCall_direction finalDirection_step [symmetric])
  finally show ?case .
qed

lemma drain_isScrolling: "isScrolling (drain cs p) = finalScrolling (isScrolling p) cs"
proof (induction cs arbitrary: p)
  case Nil
  show ?case by simp
next
  case (Cons c cs)
  have "isScrolling (drain (c # cs) p) = finalScrolling (isScrolling (runJSCall c p)) cs"
    using Cons.IH by simp
  also have "\<dots> = finalScrolling (isScrolling p) (c # cs)"
    by (simp only: runJSCall_isScrolling finalScrolling_step [symmetric])
  finally show ?case .
qed

lemma finalDirection_queued:
  "finalDirection d (queued e p) =
     (case decided e p of
        Some d' \<Rightarrow> if d' \<noteq> directionShared p then d' else d
      | None \<Rightarrow> d)"
  by (simp add: queued_def split: option.split)

lemma finalScrolling_queued:
  "finalScrolling s (queued e p) = (if isUserScrollingRef p then s else True)"
  by (simp add: queued_def split: option.split)

lemma onScroll_fields [simp]:
  "scrollY (onScroll e p) = clampY e"
  "previousYRef (onScroll e p) = clampY e"
  "scrollStartYRef (onScroll e p) = anchorAfter e p"
  "isUserScrollingRef (onScroll e p) = True"
  "directionShared (onScroll e p) =
     (case decided e p of Some d \<Rightarrow> d | None \<Rightarrow> directionShared p)"
  "jsQueue (onScroll e p) = []"
  "threshold (onScroll e p) = threshold p"
  "supportIdle (onScroll e p) = supportIdle p"
  "thresholdRef (onScroll e p) = thresholdRef p"
  "supportIdleRef (onScroll e p) = supportIdleRef p"
  by (simp_all add: onScroll_def)

lemma onScroll_direction:
  "jsQueue p = [] \<Longrightarrow>
   direction (onScroll e p) =
     (case decided e p of
        Some d' \<Rightarrow> if d' \<noteq> directionShared p then d' else direction p
      | None \<Rightarrow> direction p)"
  by (simp add: onScroll_def flushJS_def drain_direction finalDirection_queued)

lemma onScroll_isScrolling:
  "jsQueue p = [] \<Longrightarrow> isScrolling (onScroll e p) = (isUserScrollingRef p \<longrightarrow> isScrolling p)"
  by (simp add: onScroll_def flushJS_def drain_isScrolling finalScrolling_queued)

lemma runJSCall_timers:
  "c \<noteq> ResetScrollTimeout \<Longrightarrow> pendingTimers (runJSCall c p) = pendingTimers p"
  by (cases c) simp_all

lemma drain_timers:
  "ResetScrollTimeout \<notin> set cs \<Longrightarrow> pendingTimers (drain cs p) = pendingTimers p"
  by (induction cs arbitrary: p) (auto simp: runJSCall_timers)

lemma queued_without_reset:
  "\<not> supportIdleRef p \<Longrightarrow> ResetScrollTimeout \<notin> set (queued e p)"
  by (simp add: queued_def split: option.split)

lemma onScroll_timers:
  "jsQueue p = [] \<Longrightarrow> \<not> supportIdleRef p \<Longrightarrow>
   pendingTimers (onScroll e p) = pendingTimers p"
  by (simp add: onScroll_def flushJS_def drain_timers queued_without_reset)

section \<open>The clamped offset\<close>

text \<open>
  Claim C4. After a scroll event is handled, the offset in the shared value \<open>scrollY\<close> lies
  between 0 and \<open>max 0 (contentHeight - viewportHeight)\<close>, whatever the raw offset was;
  when the content is not taller than the viewport the offset is 0.
\<close>

theorem onScroll_offset_in_bounds:
  "0 \<le> scrollY (onScroll e p) \<and>
   scrollY (onScroll e p) \<le> max 0 (contentSizeHeight e - layoutMeasurementHeight e) \<and>
   (contentSizeHeight e \<le> layoutMeasurementHeight e \<longrightarrow> scrollY (onScroll e p) = 0)"
  by (simp add: clampY_def)

theorem onScroll_offset_in_bounds_witness:
  "(300::real) \<le> 800 \<and>
   scrollY (onScroll \<lparr> contentOffsetY = 50, contentSizeHeight = 300,
                        layoutMeasurementHeight = 800 \<rparr>
                     (MotionifyProvider None None)) = 0"
  using onScroll_offset_in_bounds
    [of "\<lparr> contentOffsetY = 50, contentSizeHeight = 300, layoutMeasurementHeight = 800 \<rparr>"
        "MotionifyProvider None None"]
  by simp

section \<open>The classification rule\<close>

lemmas run_defs =
  onScroll_def flushJS_def onScroll_worklet_eq queued_def decided_def anchorAfter_def
  reversal_def gestureStart_def clampY_def isDirectionChange_def newDirection_def
  MotionifyProvider_def DEFAULT_THRESHOLD_def DEFAULT_SUPPORT_IDLE_def sampleAt_def
  resetScrollTimeout_def clearTimeout_def Let_def

text \<open>
  Claim C1. With \<open>totalDelta\<close> the clamped offset minus the gesture-start anchor, both as
  the handler leaves them (after clamping and after any reversal reset), the direction in
  the shared value is \<open>Down\<close> when \<open>totalDelta > 0\<close>, \<open>Up\<close> when
  \<open>totalDelta < - threshold\<close> (the threshold the handler reads, \<open>thresholdRef\<close>), and
  its previous value otherwise. So a positive accumulation reports \<open>Down\<close> at once, and a
  direction that turns to \<open>Up\<close> does so only past the threshold. The React state
  \<open>direction\<close> follows the same rule whenever it agreed with the shared value before the
  event and no deferred call was left over.
\<close>

theorem onScroll_direction_rule:
  "directionShared (onScroll e p) =
     (if scrollY (onScroll e p) - scrollStartYRef (onScroll e p) > 0 then Down
      else if scrollY (onScroll e p) - scrollStartYRef (onScroll e p) < - thresholdRef p then Up
      else directionShared p) \<and>
   (scrollY (onScroll e p) - scrollStartYRef (onScroll e p) > 0 \<longrightarrow>
      directionShared (onScroll e p) = Down) \<and>
   (directionShared (onScroll e p) = Up \<and> directionShared p \<noteq> Up \<longrightarrow>
      scrollY (onScroll e p) - scrollStartYRef (onScroll e p) < - thresholdRef p) \<and>
   (jsQueue p = [] \<and> direction p = directionShared p \<longrightarrow>
      direction (onScroll e p) =
        (if scrollY (onScroll e p) - scrollStartYRef (onScroll e p) > 0 then Down
         else if scrollY (onScroll e p) - scrollStartYRef (onScroll e p) < - thresholdRef p then Up
         else direction p))"
  by (simp add: onScroll_direction decided_def newDirection_def)

theorem onScroll_direction_rule_witness:
  "jsQueue (onScroll (sampleAt 0) (MotionifyProvider None None)) = [] \<and>
   direction (onScroll (sampleAt 0) (MotionifyProvider None None)) =
     directionShared (onScroll (sampleAt 0) (MotionifyProvider None None)) \<and>
   scrollY (onScroll (sampleAt 50) (onScroll (sampleAt 0) (MotionifyProvider None None))) -
     scrollStartYRef (onScroll (sampleAt 50) (onScroll (sampleAt 0) (MotionifyProvider None None)))
     > 0 \<and>
   directionShared (onScroll (sampleAt 50) (onScroll (sampleAt 0) (MotionifyProvider None None)))
     = Down \<and>
   direction (onScroll (sampleAt 50) (onScroll (sampleAt 0) (MotionifyProvider None None)))
     = Down"
  using onScroll_direction_rule
    [of "sampleAt 50" "onScroll (sampleAt 0) (MotionifyProvider None None)"]
  by (simp add: run_defs)

section \<open>A reversal, sample by sample\<close>

text \<open>
  The offsets 0, 50, 100, 90, 80 on a fresh provider with threshold 8, nothing clamped.
  At the sample 90 the reversal test fires and the anchor becomes the clamped offset of
  that sample, 90, so \<open>totalDelta\<close> is 0 there and the direction stays \<open>Down\<close>: the anchor
  is not 100 and the direction is not \<open>Up\<close>.
\<close>

theorem reversal_at_90_counterexample:
  "scrollStartYRef (processSamples (map sampleAt [0, 50, 100, 90]) (MotionifyProvider (Some 8) None))
     \<noteq> 100 \<and>
   directionShared (processSamples (map sampleAt [0, 50, 100, 90]) (MotionifyProvider (Some 8) None))
     \<noteq> Up \<and>
   direction (processSamples (map sampleAt [0, 50, 100, 90]) (MotionifyProvider (Some 8) None))
     \<noteq> Up"
  by (simp add: run_defs)

text \<open>
  Claim C2, amended. On that run the direction is \<open>Idle\<close> after the sample 0 and \<open>Down\<close>
  after 50 and after 100. At 90 the reversal is detected, the anchor is reset to 90 (the
  offset of the sample itself), \<open>totalDelta\<close> is 0 and the direction holds \<open>Down\<close>. At 80
  the anchor is still 90, \<open>totalDelta = -10 < -8\<close>, and the direction becomes \<open>Up\<close>.
\<close>

theorem reversal_run_trace:
  "directionTrace (map sampleAt [0, 50, 100, 90, 80]) (MotionifyProvider (Some 8) None)
     = [Idle, Down, Down, Down, Up] \<and>
   reversal (sampleAt 90) (processSamples (map sampleAt [0, 50, 100]) (MotionifyProvider (Some 8) None)) \<and>
   scrollStartYRef (processSamples (map sampleAt [0, 50, 100, 90]) (MotionifyProvider (Some 8) None))
     = 90 \<and>
   scrollY (processSamples (map sampleAt [0, 50, 100, 90]) (MotionifyProvider (Some 8) None)) -
     scrollStartYRef (processSamples (map sampleAt [0, 50, 100, 90]) (MotionifyProvider (Some 8) None))
     = 0 \<and>
   scrollStartYRef (processSamples (map sampleAt [0, 50, 100, 90, 80]) (MotionifyProvider (Some 8) None))
     = 90 \<and>
   scrollY (processSamples (map sampleAt [0, 50, 100, 90, 80]) (MotionifyProvider (Some 8) None)) -
     scrollStartYRef (processSamples (map sampleAt [0, 50, 100, 90, 80]) (MotionifyProvider (Some 8) None))
     = - 10 \<and>
   direction (processSamples (map sampleAt [0, 50, 100, 90, 80]) (MotionifyProvider (Some 8) None))
     = Up"
  by (simp add: run_defs)

section \<open>The setters and the hook\<close>

text \<open>
  Claim C7. \<open>setThreshold v\<close> stores \<open>v\<close> as the threshold when \<open>v > 0\<close> and changes
  nothing else; when \<open>v \<le> 0\<close> it returns the state as it was. It has no failing branch.
  After the next render the handler reads the stored value.
\<close>

theorem setThreshold_positive_only:
  "(v > 0 \<longrightarrow> setThreshold v p = p\<lparr> threshold := v \<rparr>) \<and>
   (v \<le> 0 \<longrightarrow> setThreshold v p = p) \<and>
   thresholdRef (syncRefs (setThreshold v p)) = (if v > 0 then v else threshold p)"
  by (simp add: setThreshold_def syncRefs_def)

theorem setThreshold_positive_only_witness:
  "(12::real) > 0 \<and>
   setThreshold 12 (MotionifyProvider None None) = (MotionifyProvider None None)\<lparr> threshold := 12 \<rparr> \<and>
   threshold (setThreshold 12 (MotionifyProvider None None)) = 12 \<and>
   (- 3::real) \<le> 0 \<and>
   setThreshold (- 3) (MotionifyProvider None None) = MotionifyProvider None None \<and>
   threshold (setThreshold (- 3) (MotionifyProvider None None)) = 8 \<and>
   threshold (setThreshold 0 (MotionifyProvider None None)) = 8"
  using setThreshold_positive_only [of 12 "MotionifyProvider None None"]
    setThreshold_positive_only [of "- 3" "MotionifyProvider None None"]
    setThreshold_positive_only [of 0 "MotionifyProvider None None"]
  by (simp add: MotionifyProvider_def DEFAULT_THRESHOLD_def DEFAULT_SUPPORT_IDLE_def)

text \<open>
  A consumer configured with \<open>supportIdle: true\<close> and a second one configured with
  \<open>threshold: 15\<close> only. When the second unmounts, the threshold goes back to 8 and
  \<open>supportIdle\<close> stays \<open>True\<close>: a configuration that is non-default in one option does not
  reset the other.
\<close>

theorem useMotionify_unmount_counterexample:
  "thresholdOf \<lparr> configThreshold = Some 15, configSupportIdle = None \<rparr> \<noteq> 8 \<and>
   threshold
     (useMotionify_unmount \<lparr> configThreshold = Some 15, configSupportIdle = None \<rparr>
       (useMotionify_mount \<lparr> configThreshold = Some 15, configSupportIdle = None \<rparr>
         (useMotionify_mount \<lparr> configThreshold = None, configSupportIdle = Some True \<rparr>
           (MotionifyProvider None None)))) = 8 \<and>
   supportIdle
     (useMotionify_unmount \<lparr> configThreshold = Some 15, configSupportIdle = None \<rparr>
       (useMotionify_mount \<lparr> configThreshold = Some 15, configSupportIdle = None \<rparr>
         (useMotionify_mount \<lparr> configThreshold = None, configSupportIdle = Some True \<rparr>
           (MotionifyProvider None None)))) \<noteq> False"
  by (simp add: useMotionify_unmount_def useMotionify_mount_def thresholdOf_def supportIdleOf_def
        setThreshold_def setSupportIdle_def MotionifyProvider_def DEFAULT_THRESHOLD_def
        DEFAULT_SUPPORT_IDLE_def)

text \<open>
  Claim C10, amended. When a component that called \<open>useMotionify\<close> unmounts, the provider's
  threshold is reset to the default 8 if that component's threshold differed from 8, and
  \<open>supportIdle\<close> is reset to the default \<open>False\<close> if that component's \<open>supportIdle\<close>
  differed from \<open>False\<close>, whatever state the provider was in, so whatever other consumers
  had configured. An option the component left at its default is not touched.
\<close>

theorem useMotionify_unmount_resets:
  "(thresholdOf config \<noteq> 8 \<longrightarrow> threshold (useMotionify_unmount config p) = 8) \<and>
   (supportIdleOf config \<noteq> False \<longrightarrow> supportIdle (useMotionify_unmount config p) = False) \<and>
   (thresholdOf config = 8 \<longrightarrow> threshold (useMotionify_unmount config p) = threshold p) \<and>
   (supportIdleOf config = False \<longrightarrow>
      supportIdle (useMotionify_unmount config p) = supportIdle p)"
  by (simp add: useMotionify_unmount_def setThreshold_def setSupportIdle_def
        DEFAULT_THRESHOLD_def DEFAULT_SUPPORT_IDLE_def Let_def)

theorem useMotionify_unmount_resets_witness:
  "thresholdOf \<lparr> configThreshold = Some 15, configSupportIdle = Some True \<rparr> \<noteq> 8 \<and>
   supportIdleOf \<lparr> configThreshold = Some 15, configSupportIdle = Some True \<rparr> \<noteq> False \<and>
   threshold
     (useMotionify_unmount \<lparr> configThreshold = Some 15, configSupportIdle = Some True \<rparr>
       (MotionifyProvider (Some 20) (Some True))) = 8 \<and>
   supportIdle
     (useMotionify_unmount \<lparr> configThreshold = Some 15, configSupportIdle = Some True \<rparr>
       (MotionifyProvider (Some 20) (Some True))) = False \<and>
   thresholdOf \<lparr> configThreshold = None, configSupportIdle = None \<rparr> = 8 \<and>
   supportIdleOf \<lparr> configThreshold = None, configSupportIdle = None \<rparr> = False \<and>
   threshold
     (useMotionify_unmount \<lparr> configThreshold = None, configSupportIdle = None \<rparr>
       (MotionifyProvider (Some 20) (Some True))) = 20 \<and>
   supportIdle
     (useMotionify_unmount \<lparr> configThreshold = None, configSupportIdle = None \<rparr>
       (MotionifyProvider (Some 20) (Some True))) = True"
  using useMotionify_unmount_resets
      [of "\<lparr> configThreshold = Some 15, configSupportIdle = Some True \<rparr>"
          "MotionifyProvider (Some 20) (Some True)"]
    useMotionify_unmount_resets
      [of "\<lparr> configThreshold = None, configSupportIdle = None \<rparr>"
          "MotionifyProvider (Some 20) (Some True)"]
  by (simp add: thresholdOf_def supportIdleOf_def MotionifyProvider_def
        DEFAULT_THRESHOLD_def DEFAULT_SUPPORT_IDLE_def)

section \<open>Building an interpolation specification\<close>

text \<open>
  Three specifications that the spec calls invalid: ranges of different lengths, a single
  breakpoint, a decreasing input range. \<open>createInterpolation\<close> returns each of them as a
  specification; none is refused with \<open>ConfigurationError\<close>.
\<close>

theorem createInterpolation_counterexample:
  "\<not> specWellFormed [0, 100] (Numbers [1]) \<and>
   createInterpolation [0, 100] (Numbers [1]) None =
     Inr \<lparr> inputRange = [0, 100], outputRange = Numbers [1], extrapolate = Some Clamp \<rparr> \<and>
   \<not> specWellFormed [0] (Numbers [1]) \<and>
   createInterpolation [0] (Numbers [1]) (Some Extend) =
     Inr \<lparr> inputRange = [0], outputRange = Numbers [1], extrapolate = Some Extend \<rparr> \<and>
   \<not> specWellFormed [100, 0] (Numbers [1, 0]) \<and>
   createInterpolation [100, 0] (Numbers [1, 0]) (Some Identity) =
     Inr \<lparr> inputRange = [100, 0], outputRange = Numbers [1, 0], extrapolate = Some Identity \<rparr>"
  by (simp add: createInterpolation_def specWellFormed_def)

text \<open>
  Claim C8, amended. \<open>createInterpolation\<close> validates nothing: for every input range,
  output range and mode, also with mismatched lengths, fewer than two breakpoints or an
  input range that is not increasing, it returns the specification holding exactly these
  values (the mode \<open>clamp\<close> when none is given) and never fails with
  \<open>ConfigurationError\<close>.
\<close>

theorem createInterpolation_never_fails:
  "createInterpolation inp out mode \<noteq> Inl ConfigurationError \<and>
   createInterpolation inp out mode =
     Inr \<lparr> inputRange = inp, outputRange = out,
           extrapolate = Some (case mode of None \<Rightarrow> Clamp | Some m \<Rightarrow> m) \<rparr>"
  by (simp add: createInterpolation_def)

section \<open>Switching idle support off\<close>

text \<open>
  A provider with idle support handles the samples 0 and 50: the direction is \<open>Down\<close> and
  the idle timer 2 is armed. \<open>setSupportIdle False\<close> and the next render leave that timer
  armed, and when it fires the direction is forced to \<open>Idle\<close>.
\<close>

theorem setSupportIdle_counterexample:
  "pendingTimers (processSamples (map sampleAt [0, 50]) (MotionifyProvider None (Some True))) = [2] \<and>
   pendingTimers
     (syncRefs (setSupportIdle False
       (processSamples (map sampleAt [0, 50]) (MotionifyProvider None (Some True))))) = [2] \<and>
   supportIdleRef
     (syncRefs (setSupportIdle False
       (processSamples (map sampleAt [0, 50]) (MotionifyProvider None (Some True))))) = False \<and>
   direction
     (syncRefs (setSupportIdle False
       (processSamples (map sampleAt [0, 50]) (MotionifyProvider None (Some True))))) = Down \<and>
   direction
     (timerFires 2 (syncRefs (setSupportIdle False
       (processSamples (map sampleAt [0, 50]) (MotionifyProvider None (Some True)))))) = Idle"
  by (simp add: run_defs setSupportIdle_def syncRefs_def timerFires_def resetToIdle_def)

text \<open>
  Claim C6, amended. \<open>setSupportIdle\<close> only stores the flag: direction, scrolling flag,
  offset, threshold and the timer table are as before, so an idle timer that is pending
  stays armed, and when it fires after idle support was switched off it still sets the
  direction to \<open>Idle\<close> and \<open>isScrolling\<close> to \<open>False\<close>. Once the flag has reached the
  handler's ref, a scroll event arms no further timer.
\<close>

theorem setSupportIdle_keeps_timer:
  "setSupportIdle enabled p = p\<lparr> supportIdle := enabled \<rparr> \<and>
   direction (setSupportIdle enabled p) = direction p \<and>
   directionShared (setSupportIdle enabled p) = directionShared p \<and>
   isScrolling (setSupportIdle enabled p) = isScrolling p \<and>
   scrollY (setSupportIdle enabled p) = scrollY p \<and>
   threshold (setSupportIdle enabled p) = threshold p \<and>
   pendingTimers (setSupportIdle enabled p) = pendingTimers p \<and>
   pendingTimers (syncRefs (setSupportIdle enabled p)) = pendingTimers p \<and>
   (t \<in> set (pendingTimers p) \<longrightarrow>
      direction (timerFires t (syncRefs (setSupportIdle False p))) = Idle \<and>
      isScrolling (timerFires t (syncRefs (setSupportIdle False p))) = False) \<and>
   (jsQueue p = [] \<longrightarrow>
      pendingTimers (onScroll e (syncRefs (setSupportIdle False p))) = pendingTimers p)"
proof -
  have flag: "\<not> supportIdleRef (syncRefs (setSupportIdle False p))"
    by (simp add: syncRefs_def setSupportIdle_def)
  have queue: "jsQueue (syncRefs (setSupportIdle False p)) = jsQueue p"
    by (simp add: syncRefs_def setSupportIdle_def)
  have timers: "pendingTimers (syncRefs (setSupportIdle False p)) = pendingTimers p"
    by (simp add: syncRefs_def setSupportIdle_def)
  have arm: "jsQueue p = [] \<longrightarrow>
      pendingTimers (onScroll e (syncRefs (setSupportIdle False p))) = pendingTimers p"
    using onScroll_timers [of "syncRefs (setSupportIdle False p)" e] flag queue timers by simp
  have fire: "t \<in> set (pendingTimers p) \<longrightarrow>
      direction (timerFires t (syncRefs (setSupportIdle False p))) = Idle \<and>
      isScrolling (timerFires t (syncRefs (setSupportIdle False p))) = False"
    by (simp add: timerFires_def resetToIdle_def timers)
  show ?thesis
    using arm fire by (simp add: setSupportIdle_def syncRefs_def)
qed

theorem setSupportIdle_keeps_timer_witness:
  "2 \<in> set (pendingTimers (processSamples (map sampleAt [0, 50]) (MotionifyProvider None (Some True)))) \<and>
   jsQueue (processSamples (map sampleAt [0, 50]) (MotionifyProvider None (Some True))) = [] \<and>
   direction
     (setSupportIdle False
       (processSamples (map sampleAt [0, 50]) (MotionifyProvider None (Some True)))) = Down \<and>
   direction
     (timerFires 2 (syncRefs (setSupportIdle False
       (processSamples (map sampleAt [0, 50]) (MotionifyProvider None (Some True)))))) = Idle \<and>
   pendingTimers
     (onScroll (sampleAt 60) (syncRefs (setSupportIdle False
       (processSamples (map sampleAt [0, 50]) (MotionifyProvider None (Some True)))))) = [2]"
  using setSupportIdle_keeps_timer
    [of False "processSamples (map sampleAt [0, 50]) (MotionifyProvider None (Some True))"
        2 "sampleAt 60"]
  by (simp add: run_defs setSupportIdle_def syncRefs_def timerFires_def resetToIdle_def)

section \<open>Interpolation at the end breakpoints\<close>





section \<open>Not scrolling means idle\<close>

lemma idleWhenStill_queued:
  "s \<or> d = Idle \<Longrightarrow> \<not> isUserScrollingRef p \<or> s \<Longrightarrow> idleWhenStill s d (queued e p)"
  by (auto simp: queued_def split: option.split)

lemma inv_scrolled:
  assumes "provider_inv p" and "jsQueue p = []"
  shows "provider_inv (onScroll_worklet e p)"
  using assms
  by (auto simp: provider_inv_def idleWhenStill_queued finalScrolling_queued
        finalDirection_queued split: option.split)

lemma inv_deferred:
  assumes "provider_inv p" and "jsQueue p = c # cs"
  shows "provider_inv (runJSCall c (p\<lparr> jsQueue := cs \<rparr>))"
  using assms
  by (simp add: provider_inv_def runJSCall_direction runJSCall_isScrolling
        finalDirection_step [of _ c cs] finalScrolling_step [of _ c cs])

lemma inv_timeout:
  assumes "provider_inv p" and "jsQueue p = []"
  shows "provider_inv (timerFires t p)"
  using assms by (auto simp: provider_inv_def timerFires_def resetToIdle_def)

lemma reachable_inv: "reachable p \<Longrightarrow> provider_inv p"
proof (induction rule: reachable.induct)
  case (mounted thresholdProp supportIdleProp)
  show ?case
    by (simp add: provider_inv_def MotionifyProvider_def Let_def)
next
  case (scrolled p e)
  then show ?case by (simp add: inv_scrolled)
next
  case (deferred p c cs)
  then show ?case by (simp add: inv_deferred)
next
  case (timeout p t)
  then show ?case by (simp add: inv_timeout)
next
  case (threshold_set p v)
  then show ?case by (auto simp: provider_inv_def setThreshold_def)
next
  case (supportIdle_set p b)
  then show ?case by (auto simp: provider_inv_def setSupportIdle_def)
next
  case (rendered p)
  then show ?case by (auto simp: provider_inv_def syncRefs_def)
qed

lemma reachable_flush:
  "reachable p \<Longrightarrow> reachable (drain (jsQueue p) (p\<lparr> jsQueue := [] \<rparr>))"
proof (induction "jsQueue p" arbitrary: p)
  case Nil
  have eq: "p\<lparr> jsQueue := [] \<rparr> = p"
    using Nil.hyps [symmetric] by simp
  show ?case
    by (simp only: Nil.hyps [symmetric] drain.simps eq Nil.prems)
next
  case (Cons c cs)
  have r: "reachable (runJSCall c (p\<lparr> jsQueue := cs \<rparr>))"
    using Cons.prems Cons.hyps(2) [symmetric] by (rule reachable.deferred)
  have q: "cs = jsQueue (runJSCall c (p\<lparr> jsQueue := cs \<rparr>))" by simp
  have "reachable (drain (jsQueue (runJSCall c (p\<lparr> jsQueue := cs \<rparr>)))
           ((runJSCall c (p\<lparr> jsQueue := cs \<rparr>))\<lparr> jsQueue := [] \<rparr>))"
    using Cons.hyps(1) [OF q r] .
  moreover have "(runJSCall c (p\<lparr> jsQueue := cs \<rparr>))\<lparr> jsQueue := [] \<rparr>
                   = runJSCall c (p\<lparr> jsQueue := [] \<rparr>)"
    by (cases c) (simp_all add: resetScrollTimeout_def clearTimeout_def Let_def split: option.split)
  ultimately show ?case
    using Cons.hyps(2) [symmetric] by simp
qed

lemma reachable_onScroll:
  "reachable p \<Longrightarrow> jsQueue p = [] \<Longrightarrow> reachable (onScroll e p)"
  unfolding onScroll_def flushJS_def
  by (rule reachable_flush) (rule reachable.scrolled)

text \<open>
  Claim C5. In every reachable state of the provider with \<open>supportIdle\<close> set,
  \<open>isScrolling = False\<close> implies \<open>direction = Idle\<close>; the states between two deferred calls
  of one scroll event are among the reachable states. The freshly mounted provider is not
  scrolling and idle. When a scroll event reaches a provider that is not scrolling, the
  first call it defers is \<open>updateIsScrolling(true)\<close>, so it runs before any update of the
  direction. A firing idle timer sets the direction to \<open>Idle\<close> and \<open>isScrolling\<close> to
  \<open>False\<close> in one step.
\<close>

theorem not_scrolling_is_idle:
  "(reachable p \<longrightarrow> supportIdle p \<longrightarrow> \<not> isScrolling p \<longrightarrow> direction p = Idle) \<and>
   \<not> isScrolling (MotionifyProvider thresholdProp supportIdleProp) \<and>
   direction (MotionifyProvider thresholdProp supportIdleProp) = Idle \<and>
   (reachable p \<longrightarrow> jsQueue p = [] \<longrightarrow> \<not> isScrolling p \<longrightarrow>
      take 1 (jsQueue (onScroll_worklet e p)) = [UpdateIsScrolling True]) \<and>
   (t \<in> set (pendingTimers p) \<longrightarrow>
      direction (timerFires t p) = Idle \<and> \<not> isScrolling (timerFires t p))"
proof -
  have main: "direction p = Idle" if "reachable p" and "\<not> isScrolling p"
  proof -
    have "idleWhenStill (isScrolling p) (direction p) (jsQueue p)"
      using reachable_inv [OF that(1)] by (simp add: provider_inv_def)
    then have "isScrolling p \<or> direction p = Idle"
      by (cases "jsQueue p") simp_all
    with that(2) show ?thesis by simp
  qed
  have first: "take 1 (jsQueue (onScroll_worklet e p)) = [UpdateIsScrolling True]"
    if "reachable p" and "jsQueue p = []" and "\<not> isScrolling p"
    using reachable_inv [OF that(1)] that(2,3)
    by (auto simp: provider_inv_def queued_def)
  have fresh: "\<not> isScrolling (MotionifyProvider thresholdProp supportIdleProp) \<and>
      direction (MotionifyProvider thresholdProp supportIdleProp) = Idle"
    by (simp add: MotionifyProvider_def Let_def)
  have fire: "t \<in> set (pendingTimers p) \<longrightarrow>
      direction (timerFires t p) = Idle \<and> \<not> isScrolling (timerFires t p)"
    by (simp add: timerFires_def resetToIdle_def)
  show ?thesis
    using main first fresh fire by blast
qed

theorem not_scrolling_is_idle_witness:
  "reachable (timerFires 2 (processSamples (map sampleAt [0, 50]) (MotionifyProvider None (Some True)))) \<and>
   supportIdle (timerFires 2 (processSamples (map sampleAt [0, 50]) (MotionifyProvider None (Some True)))) \<and>
   \<not> isScrolling (timerFires 2 (processSamples (map sampleAt [0, 50]) (MotionifyProvider None (Some True)))) \<and>
   jsQueue (timerFires 2 (processSamples (map sampleAt [0, 50]) (MotionifyProvider None (Some True)))) = [] \<and>
   2 \<in> set (pendingTimers (processSamples (map sampleAt [0, 50]) (MotionifyProvider None (Some True)))) \<and>
   direction (timerFires 2 (processSamples (map sampleAt [0, 50]) (MotionifyProvider None (Some True)))) = Idle \<and>
   take 1 (jsQueue (onScroll_worklet (sampleAt 60)
     (timerFires 2 (processSamples (map sampleAt [0, 50]) (MotionifyProvider None (Some True))))))
     = [UpdateIsScrolling True]"
proof -
  define p where "p = processSamples (map sampleAt [0, 50]) (MotionifyProvider None (Some True))"
  have p: "p = onScroll (sampleAt 50) (onScroll (sampleAt 0) (MotionifyProvider None (Some True)))"
    by (simp add: p_def)
  have r0: "reachable (MotionifyProvider None (Some True))"
    by (rule reachable.mounted)
  have q0: "jsQueue (MotionifyProvider None (Some True)) = []"
    by (simp add: MotionifyProvider_def Let_def)
  have r1: "reachable (onScroll (sampleAt 0) (MotionifyProvider None (Some True)))"
    using r0 q0 by (rule reachable_onScroll)
  have r2: "reachable p"
    unfolding p by (rule reachable_onScroll [OF r1]) simp
  have q2: "jsQueue p = []"
    unfolding p by simp
  have r3: "reachable (timerFires 2 p)"
    using r2 q2 by (rule reachable.timeout)
  have vals: "supportIdle (timerFires 2 p) \<and> \<not> isScrolling (timerFires 2 p) \<and>
      jsQueue (timerFires 2 p) = [] \<and> 2 \<in> set (pendingTimers p)"
    by (simp add: p_def run_defs timerFires_def resetToIdle_def)
  show ?thesis
    using r3 vals
      not_scrolling_is_idle [of "timerFires 2 p" None None "sampleAt 60" 2]
      not_scrolling_is_idle [of p None None "sampleAt 60" 2]
    unfolding p_def by blast
qed

section \<open>Offsets that only grow\<close>

lemma clampY_mono:
  "contentOffsetY a \<le> contentOffsetY b \<Longrightarrow> maxScrollY a \<le> maxScrollY b \<Longrightarrow> clampY a \<le> clampY b"
  by (simp add: clampY_def maxScrollY_def)

lemma clampY_nonneg: "0 \<le> clampY e"
  by (simp add: clampY_def)

lemma anchorAfter_le:
  "\<not> isUserScrollingRef p \<or> scrollStartYRef p \<le> clampY e \<Longrightarrow> anchorAfter e p \<le> clampY e"
  by (auto simp: anchorAfter_def gestureStart_def)

lemma decided_rising:
  "anchorAfter e p \<le> clampY e \<Longrightarrow> 0 \<le> thresholdRef p \<Longrightarrow>
   decided e p = None \<or> decided e p = Some Down"
  by (simp add: decided_def newDirection_def)

lemma steady_onScroll:
  assumes "steady c p" and "c \<le> clampY e"
  shows "steady (clampY e) (onScroll e p)"
    and "directionShared p = Down \<Longrightarrow> directionShared (onScroll e p) = Down"
proof -
  have a: "anchorAfter e p \<le> clampY e"
    using assms by (intro anchorAfter_le) (auto simp: steady_def)
  have d: "decided e p = None \<or> decided e p = Some Down"
    using a assms(1) by (intro decided_rising) (auto simp: steady_def)
  show "steady (clampY e) (onScroll e p)"
    using a d assms(1) by (auto simp: steady_def)
  show "directionShared p = Down \<Longrightarrow> directionShared (onScroll e p) = Down"
    using d by auto
qed

lemma steady_run:
  "steady c p \<Longrightarrow> risingFrom c es \<Longrightarrow>
   steady (lastClamp c es) (processSamples es p) \<and>
   (directionShared p = Down \<longrightarrow> directionShared (processSamples es p) = Down)"
proof (induction es arbitrary: c p)
  case Nil
  then show ?case by simp
next
  case (Cons e es)
  from Cons.prems have le: "c \<le> clampY e" and rest: "risingFrom (clampY e) es"
    by simp_all
  note step = steady_onScroll [OF Cons.prems(1) le]
  from Cons.IH [OF step(1) rest] step(2) show ?case
    by simp
qed

lemma processSamples_append:
  "processSamples (xs @ ys) p = processSamples ys (processSamples xs p)"
  by (induction xs arbitrary: p) simp_all

lemma risingFrom_append:
  "risingFrom c (xs @ ys) = (risingFrom c xs \<and> risingFrom (lastClamp c xs) ys)"
  by (induction xs arbitrary: c) auto

lemma risingFrom_sorted:
  "sorted_wrt (\<lambda>a b. clampY a \<le> clampY b) es \<Longrightarrow> \<forall>e \<in> set es. c \<le> clampY e \<Longrightarrow>
   risingFrom c es"
  by (induction es arbitrary: c) auto

lemma sorted_clampY:
  "sorted_wrt (<) (map contentOffsetY es) \<Longrightarrow> sorted_wrt (\<le>) (map maxScrollY es) \<Longrightarrow>
   sorted_wrt (\<lambda>a b. clampY a \<le> clampY b) es"
  by (induction es) (auto simp: clampY_mono less_imp_le)

lemma processSamples_sync:
  "jsQueue p = [] \<Longrightarrow> direction p = directionShared p \<Longrightarrow>
   jsQueue (processSamples es p) = [] \<and>
   direction (processSamples es p) = directionShared (processSamples es p)"
proof (induction es arbitrary: p)
  case Nil
  then show ?case by simp
next
  case (Cons e es)
  have "direction (onScroll e p) = directionShared (onScroll e p)"
    using Cons.prems by (simp add: onScroll_direction split: option.split)
  then show ?case using Cons.IH [of "onScroll e p"] by simp
qed

text \<open>
  Two fresh providers that report \<open>Up\<close> on strictly increasing raw offsets. With the
  default threshold 8: the offset 100 on a page that scrolls to 1000, then the offset 101
  on a page that has shrunk and scrolls to 50 only; the clamped offset falls from 100 to
  50. With the threshold prop \<open>-5\<close>: the single offset 10, where \<open>totalDelta = 0 < 5\<close>.
\<close>

theorem increasing_offsets_counterexample:
  "contentOffsetY \<lparr> contentOffsetY = 100, contentSizeHeight = 1100, layoutMeasurementHeight = 100 \<rparr>
     < contentOffsetY \<lparr> contentOffsetY = 101, contentSizeHeight = 150, layoutMeasurementHeight = 100 \<rparr> \<and>
   directionShared
     (processSamples
        [\<lparr> contentOffsetY = 100, contentSizeHeight = 1100, layoutMeasurementHeight = 100 \<rparr>,
         \<lparr> contentOffsetY = 101, contentSizeHeight = 150, layoutMeasurementHeight = 100 \<rparr>]
        (MotionifyProvider None None)) = Up \<and>
   direction
     (processSamples
        [\<lparr> contentOffsetY = 100, contentSizeHeight = 1100, layoutMeasurementHeight = 100 \<rparr>,
         \<lparr> contentOffsetY = 101, contentSizeHeight = 150, layoutMeasurementHeight = 100 \<rparr>]
        (MotionifyProvider None None)) = Up \<and>
   directionShared (processSamples [sampleAt 10] (MotionifyProvider (Some (- 5)) None)) = Up"
  by (simp add: run_defs)

text \<open>
  Claim C3, amended. Take a finite sequence of samples whose raw offsets are strictly
  increasing and whose largest scrollable offset \<open>max 0 (contentHeight - viewportHeight)\<close>
  never decreases from one sample to the next, and a fresh provider whose threshold is not
  negative. Then after any number \<open>n\<close> of the samples the direction is not \<open>Up\<close>, and if it
  was \<open>Down\<close> after \<open>m \<le> n\<close> samples it is \<open>Down\<close> after \<open>n\<close>; both for the shared value and
  for the React state.
\<close>

theorem increasing_offsets_never_up:
  assumes inc: "sorted_wrt (<) (map contentOffsetY es)"
    and bounds: "sorted_wrt (\<le>) (map maxScrollY es)"
    and thr: "0 \<le> threshold (MotionifyProvider thresholdProp supportIdleProp)"
    and mn: "m \<le> n" "n \<le> length es"
  shows "directionShared (processSamples (take n es) (MotionifyProvider thresholdProp supportIdleProp)) \<noteq> Up \<and>
         direction (processSamples (take n es) (MotionifyProvider thresholdProp supportIdleProp)) \<noteq> Up \<and>
         (directionShared (processSamples (take m es) (MotionifyProvider thresholdProp supportIdleProp)) = Down \<longrightarrow>
          directionShared (processSamples (take n es) (MotionifyProvider thresholdProp supportIdleProp)) = Down) \<and>
         (direction (processSamples (take m es) (MotionifyProvider thresholdProp supportIdleProp)) = Down \<longrightarrow>
          direction (processSamples (take n es) (MotionifyProvider thresholdProp supportIdleProp)) = Down)"
proof -
  define p0 where "p0 = MotionifyProvider thresholdProp supportIdleProp"
  have fresh: "steady 0 p0"
    using thr by (simp add: p0_def steady_def MotionifyProvider_def Let_def)
  have sync0: "jsQueue p0 = []" "direction p0 = directionShared p0"
    by (simp_all add: p0_def MotionifyProvider_def Let_def)
  have rise: "risingFrom 0 es"
    using sorted_clampY [OF inc bounds] by (rule risingFrom_sorted) (simp add: clampY_nonneg)
  have tt: "take m (take n es) = take m es"
    using mn by (simp add: min_def)
  have split: "take n es = take m es @ drop m (take n es)"
    using append_take_drop_id [of m "take n es"] by (simp only: tt)
  have rise_n: "risingFrom 0 (take n es)"
    using rise risingFrom_append [of 0 "take n es" "drop n es"] by simp
  have rise_m: "risingFrom 0 (take m es)"
    and rise_mn: "risingFrom (lastClamp 0 (take m es)) (drop m (take n es))"
    using rise_n risingFrom_append [of 0 "take m es" "drop m (take n es)"] split by simp_all
  have st_n: "steady (lastClamp 0 (take n es)) (processSamples (take n es) p0)"
    using steady_run [OF fresh rise_n] by simp
  have st_m: "steady (lastClamp 0 (take m es)) (processSamples (take m es) p0)"
    using steady_run [OF fresh rise_m] by simp
  have run: "processSamples (take n es) p0 =
      processSamples (drop m (take n es)) (processSamples (take m es) p0)"
    using processSamples_append [of "take m es" "drop m (take n es)" p0] split by simp
  have keep: "directionShared (processSamples (take m es) p0) = Down \<longrightarrow>
      directionShared (processSamples (take n es) p0) = Down"
    using steady_run [OF st_m rise_mn] run by simp
  have sync_n: "direction (processSamples (take n es) p0) = directionShared (processSamples (take n es) p0)"
    using processSamples_sync [OF sync0] by simp
  have sync_m: "direction (processSamples (take m es) p0) = directionShared (processSamples (take m es) p0)"
    using processSamples_sync [OF sync0] by simp
  have "directionShared (processSamples (take n es) p0) \<noteq> Up"
    using st_n by (simp add: steady_def)
  then show ?thesis
    using keep sync_n sync_m by (simp add: p0_def)
qed

theorem increasing_offsets_never_up_witness:
  "sorted_wrt (<) (map contentOffsetY (map sampleAt [0, 50, 100, 150])) \<and>
   sorted_wrt (\<le>) (map maxScrollY (map sampleAt [0, 50, 100, 150])) \<and>
   0 \<le> threshold (MotionifyProvider None None) \<and>
   (2::nat) \<le> 4 \<and> 4 \<le> length (map sampleAt [0, 50, 100, 150]) \<and>
   directionShared (processSamples (take 2 (map sampleAt [0, 50, 100, 150])) (MotionifyProvider None None))
     = Down \<and>
   directionShared (processSamples (take 4 (map sampleAt [0, 50, 100, 150])) (MotionifyProvider None None))
     = Down \<and>
   direction (processSamples (take 4 (map sampleAt [0, 50, 100, 150])) (MotionifyProvider None None))
     \<noteq> Up"
proof -
  have inc: "sorted_wrt (<) (map contentOffsetY (map sampleAt [0, 50, 100, 150]))"
    by (simp add: sampleAt_def)
  have bounds: "sorted_wrt (\<le>) (map maxScrollY (map sampleAt [0, 50, 100, 150]))"
    by (simp add: sampleAt_def maxScrollY_def)
  have thr: "0 \<le> threshold (MotionifyProvider None None)"
    by (simp add: MotionifyProvider_def DEFAULT_THRESHOLD_def Let_def)
  have mn: "(2::nat) \<le> 4" "4 \<le> length (map sampleAt [0, 50, 100, 150])"
    by simp_all
  have two: "directionShared
      (processSamples (take 2 (map sampleAt [0, 50, 100, 150])) (MotionifyProvider None None)) = Down"
    by (simp add: run_defs)
  show ?thesis
    using inc bounds thr mn two increasing_offsets_never_up [OF inc bounds thr mn]
    by blast
qed

end
